theory Spec2Isabelle
  imports Main
begin

section \<open>Values, exceptions and the transport\<close>

text \<open>
  The bridge of \<^verbatim>\<open>src/python/alphafold_bridge.py\<close> moves JSON-like Python
  values around without computing on them. A float is kept as an opaque pair
  (mantissa, binary exponent); the only float the code writes itself is \<^verbatim>\<open>0.0\<close>.
  A dict is an association list in insertion order.
\<close>

datatype pyval =
    PNone
  | PBool bool
  | PInt int
  | PFloat int int
  | PStr string
  | PList "pyval list"
  | PDict "(string \<times> pyval) list"

type_synonym dict = "(string \<times> pyval) list"

text \<open>
  Exceptions that \<^verbatim>\<open>except Exception\<close> catches. \<open>LibError\<close> is whatever
  the HTTP library raises (connection error, timeout, invalid URL, undecodable JSON), with
  the text of \<^verbatim>\<open>str(e)\<close>. What is no \<^verbatim>\<open>Exception\<close> (a keyboard interrupt,
  an exit of the interpreter) is outside the model.
\<close>

datatype exn =
    KeyError string
  | IndexError string
  | AttributeError string
  | LibError string

fun str_exn :: "exn \<Rightarrow> string" where
  "str_exn (KeyError k) = [CHR 0x27] @ k @ [CHR 0x27]"
| "str_exn (IndexError m) = m"
| "str_exn (AttributeError m) = m"
| "str_exn (LibError m) = m"

fun type_name :: "pyval \<Rightarrow> string" where
  "type_name PNone = ''NoneType''"
| "type_name (PBool _) = ''bool''"
| "type_name (PInt _) = ''int''"
| "type_name (PFloat _ _) = ''float''"
| "type_name (PStr _) = ''str''"
| "type_name (PList _) = ''list''"
| "type_name (PDict _) = ''dict''"

text \<open>\<^verbatim>\<open>v.get(k, dflt)\<close>: only a dict has the method.\<close>

fun dict_get :: "pyval \<Rightarrow> string \<Rightarrow> pyval \<Rightarrow> exn + pyval" where
  "dict_get (PDict d) k dflt = Inr (case map_of d k of None \<Rightarrow> dflt | Some v \<Rightarrow> v)"
| "dict_get v k dflt =
     Inl (AttributeError ([CHR 0x27] @ type_name v @ [CHR 0x27] @ '' object has no attribute '' @
                          [CHR 0x27] @ ''get'' @ [CHR 0x27]))"

text \<open>Decimal text of an integer, as an f-string renders \<^verbatim>\<open>response.status_code\<close>.\<close>

fun dec_nat :: "nat \<Rightarrow> string" where
  "dec_nat n = (if n < 10 then [''0123456789'' ! n]
                else dec_nat (n div 10) @ [''0123456789'' ! (n mod 10)])"

declare dec_nat.simps [simp del]

definition str_int :: "int \<Rightarrow> string" where
  "str_int i = (if i < 0 then ''-'' @ dec_nat (nat (- i)) else dec_nat (nat i))"

text \<open>
  A response object of the HTTP library: \<open>resp_text\<close> is \<^verbatim>\<open>response.text\<close>,
  \<open>resp_json\<close> the outcome of \<^verbatim>\<open>response.json()\<close> (\<open>Inl\<close> when it raises).
\<close>

record response =
  status_code :: int
  resp_text :: string
  resp_json :: "exn + pyval"

type_synonym headers = "(string \<times> string) list"

text \<open>
  The three kinds of request the bridge sends (each with \<^verbatim>\<open>timeout=30\<close>):
  \<^item> \<open>Post url payload headers\<close>: \<^verbatim>\<open>requests.post(submit_url, json=payload, headers=headers)\<close>;
  \<^item> \<open>GetJob base job_id headers\<close>: \<^verbatim>\<open>requests.get(f'{base}/jobs/{job_id}', headers=headers)\<close>,
    kept as the two parts of the f-string, since \<open>job_id\<close> is whatever JSON value the
    service sent;
  \<^item> \<open>GetUrl url\<close>: \<^verbatim>\<open>requests.get(url)\<close> for a location taken from the job data.
\<close>

datatype request =
    Post string pyval headers
  | GetJob string pyval headers
  | GetUrl pyval

text \<open>The lines printed to standard error, by their interpolated values.\<close>

datatype logline =
    Submitting string
  | JobIdPolling pyval
  | JobStatusWaiting pyval
  | PollingErrorRetrying string

datatype event = Call request | Sleep nat | Print logline

type_synonym trace = "event list"

fun calls :: "trace \<Rightarrow> request list" where
  "calls [] = []"
| "calls (Call rq # tr) = rq # calls tr"
| "calls (_ # tr) = calls tr"

fun sleeps :: "trace \<Rightarrow> nat list" where
  "sleeps [] = []"
| "sleeps (Sleep n # tr) = n # sleeps tr"
| "sleeps (_ # tr) = sleeps tr"

text \<open>
  The remote service and the network: the reply to the \<open>i\<close>-th transport call of a run
  (counted from 0) may depend on \<open>i\<close> and on the request; \<open>Inl\<close> is an exception raised
  by the library.
\<close>

type_synonym world = "nat \<Rightarrow> request \<Rightarrow> exn + response"

definition transport :: "world \<Rightarrow> request \<Rightarrow> trace \<Rightarrow> (exn + response) \<times> trace" where
  "transport w rq tr = (w (length (calls tr)) rq, tr @ [Call rq])"

definition sleep :: "nat \<Rightarrow> trace \<Rightarrow> trace" where
  "sleep n tr = tr @ [Sleep n]"

definition print :: "logline \<Rightarrow> trace \<Rightarrow> trace" where
  "print l tr = tr @ [Print l]"

section \<open>The bridge\<close>

record bridge =
  api_key :: "string option"
  api_base_url :: string
  colabfold_available :: bool

text \<open>
  \<^verbatim>\<open>__init__\<close>: \<open>arg\<close> is the constructor's argument, \<open>env\<close> the value of
  \<^verbatim>\<open>ALPHAFOLD_API_KEY\<close>, \<open>importable\<close> whether \<^verbatim>\<open>import colabfold\<close> succeeds
  (\<^verbatim>\<open>_check_dependencies\<close>, whose notice on standard error is left out).
  \<^verbatim>\<open>a or b\<close> is \<open>a\<close> when \<open>a\<close> is truthy; a string is truthy when it is not empty.
\<close>

definition truthy :: "string option \<Rightarrow> bool" where
  "truthy k = (case k of None \<Rightarrow> False | Some s \<Rightarrow> s \<noteq> [])"

definition init :: "string option \<Rightarrow> string option \<Rightarrow> bool \<Rightarrow> bridge" where
  "init arg env importable =
     \<lparr> api_key = (if truthy arg then arg else env),
       api_base_url = ''https://api.alphafoldserver.com/v1'',
       colabfold_available = importable \<rparr>"

definition max_polls :: nat where
  "max_polls = 60"

definition poll_interval :: nat where
  "poll_interval = 10"

definition bearer_headers :: "string \<Rightarrow> headers" where
  "bearer_headers k =
     [(''Authorization'', ''Bearer '' @ k), (''Content-Type'', ''application/json'')]"

subsection \<open>Polling\<close>

text \<open>Lines 179-193: the two downloads after a \<^verbatim>\<open>completed\<close> status, and the result.\<close>

definition download_results :: "world \<Rightarrow> pyval \<Rightarrow> pyval \<Rightarrow> trace \<Rightarrow> (exn + dict) \<times> trace" where
  "download_results w job_id job_data tr =
     (case dict_get job_data ''pdbUrl'' PNone of
        Inl e \<Rightarrow> (Inl e, tr)
      | Inr pdb_url \<Rightarrow>
     (case dict_get job_data ''confidenceUrl'' PNone of
        Inl e \<Rightarrow> (Inl e, tr)
      | Inr confidence_url \<Rightarrow>
     (case transport w (GetUrl pdb_url) tr of
        (Inl e, tr1) \<Rightarrow> (Inl e, tr1)
      | (Inr r1, tr1) \<Rightarrow>
     (case transport w (GetUrl confidence_url) tr1 of
        (Inl e, tr2) \<Rightarrow> (Inl e, tr2)
      | (Inr r2, tr2) \<Rightarrow>
     (case resp_json r2 of
        Inl e \<Rightarrow> (Inl e, tr2)
      | Inr confidence_data \<Rightarrow>
     (case dict_get confidence_data ''plddt'' (PList []) of
        Inl e \<Rightarrow> (Inl e, tr2)
      | Inr plddt \<Rightarrow>
     (case dict_get confidence_data ''meanPlddt'' (PFloat 0 0) of
        Inl e \<Rightarrow> (Inl e, tr2)
      | Inr mean_plddt \<Rightarrow>
     (case dict_get confidence_data ''pae'' PNone of
        Inl e \<Rightarrow> (Inl e, tr2)
      | Inr pae \<Rightarrow>
          (Inr [(''status'', PStr ''success''),
                (''job_id'', job_id),
                (''pdb_data'', PStr (resp_text r1)),
                (''confidence_scores'', plddt),
                (''mean_plddt'', mean_plddt),
                (''pae_data'', pae)], tr2)))))))))"

definition job_failed :: "pyval \<Rightarrow> dict" where
  "job_failed job_id =
     [(''error'', PStr ''Prediction job failed''),
      (''status'', PStr ''failed''),
      (''job_id'', job_id)]"

definition job_timeout :: "pyval \<Rightarrow> dict" where
  "job_timeout job_id =
     [(''error'', PStr ''Job timeout after 10 minutes''),
      (''status'', PStr ''failed''),
      (''job_id'', job_id)]"

text \<open>
  Lines 173-202, the body of the \<^verbatim>\<open>try\<close> of one attempt: \<open>Inl e\<close> when it raises,
  \<open>Inr (Some d)\<close> when it returns \<open>d\<close>, \<open>Inr None\<close> when it falls through to the next
  attempt.
\<close>

definition poll_attempt ::
  "world \<Rightarrow> bridge \<Rightarrow> pyval \<Rightarrow> headers \<Rightarrow> trace \<Rightarrow> (exn + dict option) \<times> trace" where
  "poll_attempt w b job_id hdrs tr =
     (case transport w (GetJob (api_base_url b) job_id hdrs) tr of
        (Inl e, tr1) \<Rightarrow> (Inl e, tr1)
      | (Inr r, tr1) \<Rightarrow>
          if status_code r = 200 then
            (case resp_json r of
               Inl e \<Rightarrow> (Inl e, tr1)
             | Inr job_data \<Rightarrow>
            (case dict_get job_data ''status'' PNone of
               Inl e \<Rightarrow> (Inl e, tr1)
             | Inr status \<Rightarrow>
                 if status = PStr ''completed'' then
                   (case download_results w job_id job_data tr1 of
                      (Inl e, tr2) \<Rightarrow> (Inl e, tr2)
                    | (Inr d, tr2) \<Rightarrow> (Inr (Some d), tr2))
                 else if status = PStr ''failed'' then (Inr (Some (job_failed job_id)), tr1)
                 else (Inr None, sleep poll_interval (print (JobStatusWaiting status) tr1))))
          else (Inr None, tr1))"

text \<open>
  The \<^verbatim>\<open>for attempt in range(max_polls)\<close> loop with its handler, by the number of
  attempts left; the loop variable is not read by the body.
\<close>

fun poll_loop :: "world \<Rightarrow> bridge \<Rightarrow> pyval \<Rightarrow> headers \<Rightarrow> nat \<Rightarrow> trace \<Rightarrow> dict \<times> trace" where
  "poll_loop w b job_id hdrs 0 tr = (job_timeout job_id, tr)"
| "poll_loop w b job_id hdrs (Suc n) tr =
     (case poll_attempt w b job_id hdrs tr of
        (Inl e, tr1) \<Rightarrow>
          poll_loop w b job_id hdrs n
            (sleep poll_interval (print (PollingErrorRetrying (str_exn e)) tr1))
      | (Inr (Some d), tr1) \<Rightarrow> (d, tr1)
      | (Inr None, tr1) \<Rightarrow> poll_loop w b job_id hdrs n tr1)"

definition poll_job_status :: "world \<Rightarrow> bridge \<Rightarrow> pyval \<Rightarrow> headers \<Rightarrow> trace \<Rightarrow> dict \<times> trace" where
  "poll_job_status w b job_id hdrs tr = poll_loop w b job_id hdrs max_polls tr"

subsection \<open>Single-sequence prediction\<close>

text \<open>
  The configuration dict of \<^verbatim>\<open>predict_structure\<close> by its documented keys
  (\<open>cfg_sequence\<close> is the key \<^verbatim>\<open>'sequence'\<close>, and so on); \<open>None\<close> is an absent key.
\<close>

record structure_config =
  cfg_sequence :: "string option"
  cfg_job_name :: "string option"
  cfg_mode :: "string option"
  cfg_num_models :: "int option"
  cfg_use_templates :: "bool option"

text \<open>Lines 116-147, the body of the \<^verbatim>\<open>try\<close> of \<^verbatim>\<open>_predict_via_api\<close>.\<close>

definition predict_via_api_body ::
  "world \<Rightarrow> bridge \<Rightarrow> string \<Rightarrow> string \<Rightarrow> string \<Rightarrow> int \<Rightarrow> bool \<Rightarrow> trace \<Rightarrow> (exn + dict) \<times> trace" where
  "predict_via_api_body w b k sequence job_name num_models use_templates tr =
     (let hdrs = bearer_headers k;
          payload = PDict [(''sequences'', PList [PDict [(''sequence'', PStr sequence)]]),
                           (''modelPreset'', PStr (if num_models = 1 then ''monomer'' else ''multimer'')),
                           (''numPredictions'', PInt num_models),
                           (''useTemplates'', PBool use_templates)];
          submit_url = api_base_url b @ ''/predict''
      in case transport w (Post submit_url payload hdrs) (print (Submitting job_name) tr) of
           (Inl e, tr1) \<Rightarrow> (Inl e, tr1)
         | (Inr r, tr1) \<Rightarrow>
             if status_code r = 202 then
               (case resp_json r of
                  Inl e \<Rightarrow> (Inl e, tr1)
                | Inr job_data \<Rightarrow>
               (case dict_get job_data ''jobId'' PNone of
                  Inl e \<Rightarrow> (Inl e, tr1)
                | Inr job_id \<Rightarrow>
                    (case poll_job_status w b job_id hdrs (print (JobIdPolling job_id) tr1) of
                       (d, tr2) \<Rightarrow> (Inr d, tr2))))
             else (Inr [(''error'', PStr (''API request failed: '' @ str_int (status_code r))),
                        (''status'', PStr ''failed''),
                        (''message'', PStr (resp_text r))], tr1))"

definition predict_via_api ::
  "world \<Rightarrow> bridge \<Rightarrow> string \<Rightarrow> string \<Rightarrow> int \<Rightarrow> bool \<Rightarrow> trace \<Rightarrow> dict \<times> trace" where
  "predict_via_api w b sequence job_name num_models use_templates tr =
     (case api_key b of
        None \<Rightarrow>
          ([(''error'', PStr ''AlphaFold API key not set. Set ALPHAFOLD_API_KEY environment variable.''),
            (''status'', PStr ''failed''),
            (''message'', PStr ''API mode requires authentication'')], tr)
      | Some k \<Rightarrow>
          if k = [] then
            ([(''error'', PStr ''AlphaFold API key not set. Set ALPHAFOLD_API_KEY environment variable.''),
              (''status'', PStr ''failed''),
              (''message'', PStr ''API mode requires authentication'')], tr)
          else
            (case predict_via_api_body w b k sequence job_name num_models use_templates tr of
               (Inr d, tr1) \<Rightarrow> (d, tr1)
             | (Inl e, tr1) \<Rightarrow>
                 ([(''error'', PStr (str_exn e)),
                   (''status'', PStr ''failed''),
                   (''message'', PStr (''AlphaFold API prediction failed: '' @ str_exn e))], tr1)))"

definition predict_via_colabfold :: "bridge \<Rightarrow> string \<Rightarrow> string \<Rightarrow> int \<Rightarrow> dict" where
  "predict_via_colabfold b sequence job_name num_models =
     (if \<not> colabfold_available b then
        [(''error'', PStr ''ColabFold not installed''),
         (''status'', PStr ''failed''),
         (''message'', PStr ''Install ColabFold: pip install colabfold'')]
      else
        [(''error'', PStr ''Local ColabFold prediction not yet implemented''),
         (''status'', PStr ''failed''),
         (''message'', PStr (''Use API mode for now: mode='' @ [CHR 0x22] @ ''api'' @ [CHR 0x22]))])"

text \<open>
  \<^verbatim>\<open>predict_structure\<close>: \<^verbatim>\<open>config['sequence']\<close> is read before any handler is
  in place, so a configuration without the key raises \<^verbatim>\<open>KeyError\<close> to the caller.
\<close>

definition predict_structure ::
  "world \<Rightarrow> bridge \<Rightarrow> structure_config \<Rightarrow> trace \<Rightarrow> (exn + dict) \<times> trace" where
  "predict_structure w b config tr =
     (case cfg_sequence config of
        None \<Rightarrow> (Inl (KeyError ''sequence''), tr)
      | Some sequence \<Rightarrow>
          (let job_name = (case cfg_job_name config of None \<Rightarrow> ''holoscript_prediction'' | Some j \<Rightarrow> j);
               mode = (case cfg_mode config of None \<Rightarrow> ''api'' | Some m \<Rightarrow> m);
               num_models = (case cfg_num_models config of None \<Rightarrow> 5 | Some n \<Rightarrow> n);
               use_templates = (case cfg_use_templates config of None \<Rightarrow> False | Some u \<Rightarrow> u)
           in if mode = ''api'' then
                (case predict_via_api w b sequence job_name num_models use_templates tr of
                   (d, tr1) \<Rightarrow> (Inr d, tr1))
              else if mode = ''local'' then
                (Inr (predict_via_colabfold b sequence job_name num_models), tr)
              else
                (Inr [(''error'', PStr (''Unknown prediction mode: '' @ mode)),
                      (''status'', PStr ''failed'')], tr)))"

subsection \<open>Multimer prediction\<close>

text \<open>The configuration dict of \<^verbatim>\<open>predict_multimer\<close> by its documented keys.\<close>

record multimer_config =
  mcfg_sequences :: "string list option"
  mcfg_stoichiometry :: "int list option"
  mcfg_job_name :: "string option"

text \<open>
  Lines 282-285: the loop over \<^verbatim>\<open>enumerate(sequences)\<close>, by the index \<open>i\<close> and the list \<open>chs\<close> of
  chains appended so far. \<^verbatim>\<open>stoichiometry[i]\<close> raises \<^verbatim>\<open>IndexError\<close> past the end
  of the list; \<^verbatim>\<open>range(n)\<close> is empty for \<open>n \<le> 0\<close>.
\<close>

fun build_chains :: "nat \<Rightarrow> string list \<Rightarrow> int list \<Rightarrow> pyval list \<Rightarrow> exn + pyval list" where
  "build_chains i [] st chs = Inr chs"
| "build_chains i (seq # rest) st chs =
     (if i < length st then
        build_chains (Suc i) rest st
          (chs @ replicate (nat (st ! i)) (PDict [(''sequence'', PStr seq)]))
      else Inl (IndexError ''list index out of range''))"

text \<open>Lines 276-304, the body of the \<^verbatim>\<open>try\<close> of \<^verbatim>\<open>predict_multimer\<close>.\<close>

definition predict_multimer_body ::
  "world \<Rightarrow> bridge \<Rightarrow> string \<Rightarrow> string list \<Rightarrow> int list \<Rightarrow> trace \<Rightarrow> (exn + dict) \<times> trace" where
  "predict_multimer_body w b k seqs st tr =
     (let hdrs = bearer_headers k
      in case build_chains 0 seqs st [] of
           Inl e \<Rightarrow> (Inl e, tr)
         | Inr chs \<Rightarrow>
          (let payload = PDict [(''sequences'', PList chs),
                                (''modelPreset'', PStr ''multimer''),
                                (''numPredictions'', PInt 5)];
               submit_url = api_base_url b @ ''/predict''
           in case transport w (Post submit_url payload hdrs) tr of
                (Inl e, tr1) \<Rightarrow> (Inl e, tr1)
              | (Inr r, tr1) \<Rightarrow>
                  if status_code r = 202 then
                    (case resp_json r of
                       Inl e \<Rightarrow> (Inl e, tr1)
                     | Inr job_data \<Rightarrow>
                    (case dict_get job_data ''jobId'' PNone of
                       Inl e \<Rightarrow> (Inl e, tr1)
                     | Inr job_id \<Rightarrow>
                         (case poll_job_status w b job_id hdrs tr1 of
                            (d, tr2) \<Rightarrow> (Inr d, tr2))))
                  else (Inr [(''error'', PStr (''Multimer API request failed: '' @ str_int (status_code r))),
                             (''status'', PStr ''failed'')], tr1)))"

definition predict_multimer ::
  "world \<Rightarrow> bridge \<Rightarrow> multimer_config \<Rightarrow> trace \<Rightarrow> (exn + dict) \<times> trace" where
  "predict_multimer w b config tr =
     (case mcfg_sequences config of
        None \<Rightarrow> (Inl (KeyError ''sequences''), tr)
      | Some seqs \<Rightarrow>
          (let st = (case mcfg_stoichiometry config of None \<Rightarrow> replicate (length seqs) 1 | Some s \<Rightarrow> s)
           in case api_key b of
                None \<Rightarrow>
                  (Inr [(''error'', PStr ''Multimer prediction requires API access''),
                        (''status'', PStr ''failed'')], tr)
              | Some k \<Rightarrow>
                  if k = [] then
                    (Inr [(''error'', PStr ''Multimer prediction requires API access''),
                          (''status'', PStr ''failed'')], tr)
                  else
                    (case predict_multimer_body w b k seqs st tr of
                       (Inr d, tr1) \<Rightarrow> (Inr d, tr1)
                     | (Inl e, tr1) \<Rightarrow>
                         (Inr [(''error'', PStr (str_exn e)),
                               (''status'', PStr ''failed''),
                               (''message'', PStr (''Multimer prediction failed: '' @ str_exn e))], tr1))))"

subsection \<open>Status report\<close>


section \<open>Vocabulary of the properties\<close>

text \<open>The status query that every attempt of the poller sends.\<close>

definition status_query :: "bridge \<Rightarrow> pyval \<Rightarrow> headers \<Rightarrow> request" where
  "status_query b job_id hdrs = GetJob (api_base_url b) job_id hdrs"

text \<open>
  The status an attempt reads from a reply: there is one when the reply is a response
  with code 200 whose body decodes to a dict; a dict without the key gives \<^verbatim>\<open>None\<close>.
\<close>

definition status_of :: "exn + response \<Rightarrow> pyval option" where
  "status_of r =
     (case r of
        Inl e \<Rightarrow> None
      | Inr resp \<Rightarrow>
          if status_code resp = 200 then
            (case resp_json resp of
               Inr (PDict jd) \<Rightarrow> Some (case map_of jd ''status'' of None \<Rightarrow> PNone | Some v \<Rightarrow> v)
             | _ \<Rightarrow> None)
          else None)"

definition failed_reply :: "exn + response \<Rightarrow> bool" where
  "failed_reply r = (status_of r = Some (PStr ''failed''))"

definition completed_reply :: "exn + response \<Rightarrow> bool" where
  "completed_reply r = (status_of r = Some (PStr ''completed''))"

text \<open>A reply that carries a status which is neither of the two terminal ones.\<close>

definition pending_reply :: "exn + response \<Rightarrow> bool" where
  "pending_reply r =
     (case status_of r of None \<Rightarrow> False
      | Some st \<Rightarrow> st \<noteq> PStr ''completed'' \<and> st \<noteq> PStr ''failed'')"

definition non200_reply :: "exn + response \<Rightarrow> bool" where
  "non200_reply r = (case r of Inl e \<Rightarrow> False | Inr resp \<Rightarrow> status_code resp \<noteq> 200)"

text \<open>Any reply after which the loop goes on: an exception, a non-200 code, a body
  that is no dict, or a status that is not terminal.\<close>

definition continue_reply :: "exn + response \<Rightarrow> bool" where
  "continue_reply r = (\<not> completed_reply r \<and> \<not> failed_reply r)"



text \<open>The chain lists of the submissions in a trace, in order.\<close>

fun submitted_chains :: "trace \<Rightarrow> pyval list" where
  "submitted_chains [] = []"
| "submitted_chains (Call (Post url (PDict payload) hdrs) # tr) =
     (case map_of payload ''sequences'' of None \<Rightarrow> PNone | Some v \<Rightarrow> v) # submitted_chains tr"
| "submitted_chains (_ # tr) = submitted_chains tr"

text \<open>
  The chain list as the specification words it: each sequence replicated by its
  stoichiometry count, in input order.
\<close>

definition replicated_chains :: "string list \<Rightarrow> int list \<Rightarrow> pyval" where
  "replicated_chains seqs st =
     PList (concat (map (\<lambda>(s, n). replicate (nat n) (PDict [(''sequence'', PStr s)])) (zip seqs st)))"

subsection \<open>Sample runs\<close>

definition sample_bridge :: bridge where
  "sample_bridge = init (Some ''secret'') None False"

definition sample_headers :: headers where
  "sample_headers = bearer_headers ''secret''"

definition reply_with :: "dict \<Rightarrow> exn + response" where
  "reply_with jd = Inr \<lparr> status_code = 200, resp_text = [], resp_json = Inr (PDict jd) \<rparr>"

definition always_pending :: world where
  "always_pending i rq = reply_with [(''status'', PStr ''pending'')]"

definition fails_third :: world where
  "fails_third i rq =
     (if i = 2 then reply_with [(''status'', PStr ''failed'')]
      else reply_with [(''status'', PStr ''running'')])"


definition always_503 :: world where
  "always_503 i rq =
     Inr \<lparr> status_code = 503, resp_text = ''Service Unavailable'',
           resp_json = Inl (LibError ''Expecting value'') \<rparr>"



definition rejects_submission :: world where
  "rejects_submission i rq =
     Inr \<lparr> status_code = 500, resp_text = ''Internal Server Error'',
           resp_json = Inl (LibError ''Expecting value'') \<rparr>"

definition sample_multimer :: multimer_config where
  "sample_multimer =
     \<lparr> mcfg_sequences = Some [''A'', ''B''], mcfg_stoichiometry = Some [2, 1],
       mcfg_job_name = None \<rparr>"

definition sample_structure :: structure_config where
  "sample_structure =
     \<lparr> cfg_sequence = Some ''MKTAYIAK'', cfg_job_name = Some ''my_protein'', cfg_mode = None,
       cfg_num_models = None, cfg_use_templates = None \<rparr>"


definition short_stoichiometry :: multimer_config where
  "short_stoichiometry =
     \<lparr> mcfg_sequences = Some [''A'', ''B''], mcfg_stoichiometry = Some [2],
       mcfg_job_name = None \<rparr>"

definition accepts_then_fails :: world where
  "accepts_then_fails i rq =
     (if i = 0 then
        Inr \<lparr> status_code = 202, resp_text = [], resp_json = Inr (PDict [(''jobId'', PStr ''job-1'')]) \<rparr>
      else reply_with [(''status'', PStr ''failed'')])"

definition default_stoichiometry :: multimer_config where
  "default_stoichiometry =
     \<lparr> mcfg_sequences = Some [''A'', ''B''], mcfg_stoichiometry = None, mcfg_job_name = None \<rparr>"

section \<open>The poller\<close>

lemma calls_append: "calls (xs @ ys) = calls xs @ calls ys"
  by (induction xs rule: calls.induct) simp_all

lemma sleeps_append: "sleeps (xs @ ys) = sleeps xs @ sleeps ys"
  by (induction xs rule: sleeps.induct) simp_all

lemma attempt_pending:
  assumes "status_of (w (length (calls tr)) (status_query b job_id hdrs)) = Some st"
    and "st \<noteq> PStr ''completed''" and "st \<noteq> PStr ''failed''"
  shows "poll_attempt w b job_id hdrs tr =
           (Inr None, tr @ [Call (status_query b job_id hdrs), Print (JobStatusWaiting st), Sleep 10])"
  using assms
  by (auto simp: poll_attempt_def transport_def status_of_def status_query_def sleep_def print_def
        poll_interval_def split: sum.splits if_splits pyval.splits option.splits)

lemma attempt_failed:
  assumes "failed_reply (w (length (calls tr)) (status_query b job_id hdrs))"
  shows "poll_attempt w b job_id hdrs tr =
           (Inr (Some (job_failed job_id)), tr @ [Call (status_query b job_id hdrs)])"
  using assms
  by (auto simp: poll_attempt_def transport_def status_of_def status_query_def failed_reply_def
        split: sum.splits if_splits pyval.splits option.splits)

lemma attempt_non200:
  assumes "non200_reply (w (length (calls tr)) (status_query b job_id hdrs))"
  shows "poll_attempt w b job_id hdrs tr = (Inr None, tr @ [Call (status_query b job_id hdrs)])"
  using assms
  by (auto simp: poll_attempt_def transport_def non200_reply_def status_query_def
        split: sum.splits if_splits)

lemma attempt_continue:
  assumes "continue_reply (w (length (calls tr)) (status_query b job_id hdrs))"
  shows "\<exists>tr1. poll_loop w b job_id hdrs (Suc n) tr = poll_loop w b job_id hdrs n tr1 \<and>
               calls tr1 = calls tr @ [status_query b job_id hdrs]"
  using assms
  by (auto simp: poll_attempt_def transport_def status_of_def status_query_def failed_reply_def
        completed_reply_def continue_reply_def calls_append sleep_def print_def
        split: sum.splits if_splits pyval.splits option.splits)

text \<open>\<open>k\<close> replies that let the loop go on use up \<open>k\<close> attempts and \<open>k\<close> status queries.\<close>

lemma loop_continue:
  "\<forall>j<k. continue_reply (w (length (calls tr) + j) (status_query b job_id hdrs)) \<Longrightarrow>
   \<exists>tr1. poll_loop w b job_id hdrs (k + n) tr = poll_loop w b job_id hdrs n tr1 \<and>
         calls tr1 = calls tr @ replicate k (status_query b job_id hdrs)"
proof (induction k arbitrary: tr)
  case 0
  show ?case by (rule exI [of _ tr]) simp
next
  case (Suc k)
  from Suc.prems have "continue_reply (w (length (calls tr)) (status_query b job_id hdrs))"
    by (metis add.right_neutral zero_less_Suc)
  with attempt_continue [of w tr b job_id hdrs "k + n"] obtain tr1 where
    t1: "poll_loop w b job_id hdrs (Suc (k + n)) tr = poll_loop w b job_id hdrs (k + n) tr1"
    and c1: "calls tr1 = calls tr @ [status_query b job_id hdrs]"
    by blast
  have "\<forall>j<k. continue_reply (w (length (calls tr1) + j) (status_query b job_id hdrs))"
  proof (intro allI impI)
    fix j assume "j < k"
    then have "Suc j < Suc k" by simp
    with Suc.prems have "continue_reply (w (length (calls tr) + Suc j) (status_query b job_id hdrs))"
      by blast
    with c1 show "continue_reply (w (length (calls tr1) + j) (status_query b job_id hdrs))"
      by simp
  qed
  from Suc.IH [OF this] obtain tr2 where
    "poll_loop w b job_id hdrs (k + n) tr1 = poll_loop w b job_id hdrs n tr2"
    "calls tr2 = calls tr1 @ replicate k (status_query b job_id hdrs)"
    by blast
  with t1 c1 show ?case
    by (auto simp: replicate_append_same)
qed

lemma loop_pending:
  "\<forall>i. pending_reply (w i (status_query b job_id hdrs)) \<Longrightarrow>
   fst (poll_loop w b job_id hdrs n tr) = job_timeout job_id \<and>
   calls (snd (poll_loop w b job_id hdrs n tr)) = calls tr @ replicate n (status_query b job_id hdrs) \<and>
   sleeps (snd (poll_loop w b job_id hdrs n tr)) = sleeps tr @ replicate n poll_interval"
proof (induction n arbitrary: tr)
  case 0
  then show ?case by simp
next
  case (Suc n)
  from Suc.prems obtain st where
    st: "status_of (w (length (calls tr)) (status_query b job_id hdrs)) = Some st"
      "st \<noteq> PStr ''completed''" "st \<noteq> PStr ''failed''"
    by (auto simp: pending_reply_def split: option.splits)
  show ?case
    using Suc.IH [OF Suc.prems] attempt_pending [of w tr b job_id hdrs st] st
    by (simp add: calls_append sleeps_append replicate_append_same poll_interval_def)
qed

lemma loop_non200:
  "\<forall>i. non200_reply (w i (status_query b job_id hdrs)) \<Longrightarrow>
   poll_loop w b job_id hdrs n tr =
     (job_timeout job_id, tr @ replicate n (Call (status_query b job_id hdrs)))"
proof (induction n arbitrary: tr)
  case 0
  then show ?case by simp
next
  case (Suc n)
  have "non200_reply (w (length (calls tr)) (status_query b job_id hdrs))"
    using Suc.prems by blast
  with attempt_non200 [of w tr b job_id hdrs] Suc.IH [OF Suc.prems] show ?case
    by (simp add: replicate_append_same)
qed




lemma failed_after_continue:
  assumes c: "\<forall>j<k. continue_reply (w (length (calls tr) + j) (status_query b job_id hdrs))"
    and f: "failed_reply (w (length (calls tr) + k) (status_query b job_id hdrs))"
    and k: "k < max_polls"
  shows "\<exists>tr1. poll_job_status w b job_id hdrs tr =
                 (job_failed job_id, tr1 @ [Call (status_query b job_id hdrs)]) \<and>
               calls tr1 = calls tr @ replicate k (status_query b job_id hdrs)"
proof -
  from k obtain m where m: "max_polls = k + Suc m"
    by (metis less_imp_Suc_add add_Suc_right)
  from c loop_continue [of k w tr b job_id hdrs "Suc m"] obtain tr1 where
    t1: "poll_loop w b job_id hdrs (k + Suc m) tr = poll_loop w b job_id hdrs (Suc m) tr1"
    and c1: "calls tr1 = calls tr @ replicate k (status_query b job_id hdrs)"
    by blast
  from f c1 have "failed_reply (w (length (calls tr1)) (status_query b job_id hdrs))"
    by simp
  with attempt_failed [of w tr1 b job_id hdrs]
  have t2: "poll_loop w b job_id hdrs (Suc m) tr1 =
          (job_failed job_id, tr1 @ [Call (status_query b job_id hdrs)])"
    by simp
  have "poll_job_status w b job_id hdrs tr =
          (job_failed job_id, tr1 @ [Call (status_query b job_id hdrs)])"
    by (simp only: poll_job_status_def m t1 t2)
  with c1 show ?thesis by blast
qed

text \<open>
  C6. An attempt whose status reply is \<^verbatim>\<open>failed\<close> returns at once: the status query
  of that attempt is the last event of the run, and the result is the failure result with
  the message \<^verbatim>\<open>Prediction job failed\<close> and the job id. For a whole run: when the
  first \<open>k\<close> replies let the loop go on and reply \<open>k\<close> (with \<open>k < 60\<close>) is
  \<^verbatim>\<open>failed\<close>, the poller sends exactly \<open>k + 1\<close> status queries.
\<close>

section \<open>Claims about the poller\<close>

text \<open>
  C3. When every status query is answered with a pending status (a 200 response whose
  status is neither \<^verbatim>\<open>completed\<close> nor \<^verbatim>\<open>failed\<close>), the poller sends exactly 60
  status queries and returns the failure result with the timeout message and the job id.
\<close>

theorem always_pending_times_out:
  assumes "\<forall>i. pending_reply (w i (status_query b job_id hdrs))"
  shows "fst (poll_job_status w b job_id hdrs tr) =
           [(''error'', PStr ''Job timeout after 10 minutes''),
            (''status'', PStr ''failed''),
            (''job_id'', job_id)] \<and>
         calls (snd (poll_job_status w b job_id hdrs tr)) =
           calls tr @ replicate 60 (status_query b job_id hdrs)"
  using assms loop_pending [of w b job_id hdrs max_polls tr]
  by (simp add: poll_job_status_def job_timeout_def max_polls_def)

text \<open>The run of C3 against a service that always answers \<^verbatim>\<open>pending\<close>.\<close>

theorem always_pending_times_out_witness:
  "(\<forall>i. pending_reply (always_pending i (status_query sample_bridge (PStr ''job-1'') sample_headers))) \<and>
   fst (poll_job_status always_pending sample_bridge (PStr ''job-1'') sample_headers []) =
     [(''error'', PStr ''Job timeout after 10 minutes''),
      (''status'', PStr ''failed''),
      (''job_id'', PStr ''job-1'')] \<and>
   length (calls (snd (poll_job_status always_pending sample_bridge (PStr ''job-1'') sample_headers []))) = 60"
proof -
  have h: "\<forall>i. pending_reply (always_pending i (status_query sample_bridge (PStr ''job-1'') sample_headers))"
    by (simp add: pending_reply_def always_pending_def status_of_def reply_with_def)
  show ?thesis
    using h always_pending_times_out
        [of always_pending sample_bridge "PStr ''job-1''" sample_headers "[]"]
    by simp
qed

theorem failed_status_stops_polling:
  "(failed_reply (w (length (calls tr)) (status_query b job_id hdrs)) \<longrightarrow>
      poll_loop w b job_id hdrs (Suc n) tr =
        ([(''error'', PStr ''Prediction job failed''),
          (''status'', PStr ''failed''),
          (''job_id'', job_id)], tr @ [Call (status_query b job_id hdrs)])) \<and>
   ((\<forall>j<k. continue_reply (w (length (calls tr) + j) (status_query b job_id hdrs))) \<and>
    failed_reply (w (length (calls tr) + k) (status_query b job_id hdrs)) \<and> k < max_polls \<longrightarrow>
      fst (poll_job_status w b job_id hdrs tr) =
        [(''error'', PStr ''Prediction job failed''),
          (''status'', PStr ''failed''),
          (''job_id'', job_id)] \<and>
      calls (snd (poll_job_status w b job_id hdrs tr)) =
        calls tr @ replicate (Suc k) (status_query b job_id hdrs))"
proof (rule conjI)
  show "failed_reply (w (length (calls tr)) (status_query b job_id hdrs)) \<longrightarrow>
      poll_loop w b job_id hdrs (Suc n) tr =
        ([(''error'', PStr ''Prediction job failed''),
          (''status'', PStr ''failed''),
          (''job_id'', job_id)], tr @ [Call (status_query b job_id hdrs)])"
    using attempt_failed [of w tr b job_id hdrs]
    by (simp add: job_failed_def)
next
  show "(\<forall>j<k. continue_reply (w (length (calls tr) + j) (status_query b job_id hdrs))) \<and>
    failed_reply (w (length (calls tr) + k) (status_query b job_id hdrs)) \<and> k < max_polls \<longrightarrow>
      fst (poll_job_status w b job_id hdrs tr) =
        [(''error'', PStr ''Prediction job failed''),
          (''status'', PStr ''failed''),
          (''job_id'', job_id)] \<and>
      calls (snd (poll_job_status w b job_id hdrs tr)) =
        calls tr @ replicate (Suc k) (status_query b job_id hdrs)"
  proof (rule impI)
    assume a: "(\<forall>j<k. continue_reply (w (length (calls tr) + j) (status_query b job_id hdrs))) \<and>
      failed_reply (w (length (calls tr) + k) (status_query b job_id hdrs)) \<and> k < max_polls"
    with failed_after_continue [of k w tr b job_id hdrs] obtain tr1 where
      "poll_job_status w b job_id hdrs tr =
         (job_failed job_id, tr1 @ [Call (status_query b job_id hdrs)])"
      "calls tr1 = calls tr @ replicate k (status_query b job_id hdrs)"
      by blast
    then show "fst (poll_job_status w b job_id hdrs tr) =
        [(''error'', PStr ''Prediction job failed''),
          (''status'', PStr ''failed''),
          (''job_id'', job_id)] \<and>
      calls (snd (poll_job_status w b job_id hdrs tr)) =
        calls tr @ replicate (Suc k) (status_query b job_id hdrs)"
      by (simp add: job_failed_def calls_append replicate_append_same)
  qed
qed

text \<open>The run of C6 against a service whose third reply is \<^verbatim>\<open>failed\<close>.\<close>

theorem failed_status_stops_polling_witness:
  "failed_reply (fails_third 2 (status_query sample_bridge (PStr ''job-1'') sample_headers)) \<and>
   fst (poll_job_status fails_third sample_bridge (PStr ''job-1'') sample_headers []) =
     [(''error'', PStr ''Prediction job failed''),
      (''status'', PStr ''failed''),
      (''job_id'', PStr ''job-1'')] \<and>
   length (calls (snd (poll_job_status fails_third sample_bridge (PStr ''job-1'') sample_headers []))) = 3 \<and>
   poll_loop fails_third sample_bridge (PStr ''job-1'') sample_headers (Suc 57)
       [Call (GetUrl PNone), Call (GetUrl PNone)] =
     ([(''error'', PStr ''Prediction job failed''),
       (''status'', PStr ''failed''),
       (''job_id'', PStr ''job-1'')],
      [Call (GetUrl PNone), Call (GetUrl PNone),
       Call (status_query sample_bridge (PStr ''job-1'') sample_headers)])"
proof -
  let ?q = "status_query sample_bridge (PStr ''job-1'') sample_headers"
  have f: "failed_reply (fails_third 2 ?q)"
    by (simp add: failed_reply_def fails_third_def status_of_def reply_with_def)
  have f': "failed_reply (fails_third (length (calls []) + 2) ?q)"
    by (simp add: failed_reply_def fails_third_def status_of_def reply_with_def)
  have c: "\<forall>j<2::nat. continue_reply (fails_third (length (calls []) + j) ?q)"
    by (simp add: continue_reply_def completed_reply_def failed_reply_def fails_third_def
          status_of_def reply_with_def)
  have k: "(2::nat) < max_polls"
    by (simp add: max_polls_def)
  from c f' k
    conjunct2 [OF failed_status_stops_polling
        [of fails_third "[]" sample_bridge "PStr ''job-1''" sample_headers 0 2]]
  have "fst (poll_job_status fails_third sample_bridge (PStr ''job-1'') sample_headers []) =
        [(''error'', PStr ''Prediction job failed''),
          (''status'', PStr ''failed''),
          (''job_id'', PStr ''job-1'')] \<and>
      calls (snd (poll_job_status fails_third sample_bridge (PStr ''job-1'') sample_headers [])) =
        calls [] @ replicate (Suc 2) ?q"
    by blast
  moreover have "poll_loop fails_third sample_bridge (PStr ''job-1'') sample_headers (Suc 57)
       [Call (GetUrl PNone), Call (GetUrl PNone)] =
     ([(''error'', PStr ''Prediction job failed''),
       (''status'', PStr ''failed''),
       (''job_id'', PStr ''job-1'')],
      [Call (GetUrl PNone), Call (GetUrl PNone)] @ [Call ?q])"
  proof -
    have "failed_reply
            (fails_third (length (calls [Call (GetUrl PNone), Call (GetUrl PNone)])) ?q)"
      by (simp add: failed_reply_def fails_third_def status_of_def reply_with_def)
    with conjunct1 [OF failed_status_stops_polling
        [of fails_third "[Call (GetUrl PNone), Call (GetUrl PNone)]" sample_bridge
            "PStr ''job-1''" sample_headers 57]]
    show ?thesis by blast
  qed
  ultimately show ?thesis using f by simp
qed



text \<open>
  C9. A status reply with a code other than 200 uses up the attempt and nothing else: no
  log line, no sleep, no return. When every reply has such a code, the run is 60 status
  queries with no sleep between them and ends in the timeout failure.
\<close>

theorem non200_consumes_attempt_without_wait:
  "(non200_reply (w (length (calls tr)) (status_query b job_id hdrs)) \<longrightarrow>
      poll_loop w b job_id hdrs (Suc n) tr =
        poll_loop w b job_id hdrs n (tr @ [Call (status_query b job_id hdrs)])) \<and>
   ((\<forall>i. non200_reply (w i (status_query b job_id hdrs))) \<longrightarrow>
      poll_job_status w b job_id hdrs tr =
        ([(''error'', PStr ''Job timeout after 10 minutes''),
          (''status'', PStr ''failed''),
          (''job_id'', job_id)],
         tr @ replicate 60 (Call (status_query b job_id hdrs))))"
proof (rule conjI)
  show "non200_reply (w (length (calls tr)) (status_query b job_id hdrs)) \<longrightarrow>
      poll_loop w b job_id hdrs (Suc n) tr =
        poll_loop w b job_id hdrs n (tr @ [Call (status_query b job_id hdrs)])"
    using attempt_non200 [of w tr b job_id hdrs] by simp
next
  show "(\<forall>i. non200_reply (w i (status_query b job_id hdrs))) \<longrightarrow>
      poll_job_status w b job_id hdrs tr =
        ([(''error'', PStr ''Job timeout after 10 minutes''),
          (''status'', PStr ''failed''),
          (''job_id'', job_id)],
         tr @ replicate 60 (Call (status_query b job_id hdrs)))"
    using loop_non200 [of w b job_id hdrs max_polls tr]
    by (simp add: poll_job_status_def max_polls_def job_timeout_def)
qed

text \<open>The run of C9 against a service that always answers 503.\<close>

theorem non200_consumes_attempt_without_wait_witness:
  "non200_reply (always_503 0 (status_query sample_bridge (PStr ''job-1'') sample_headers)) \<and>
   poll_job_status always_503 sample_bridge (PStr ''job-1'') sample_headers [] =
     ([(''error'', PStr ''Job timeout after 10 minutes''),
       (''status'', PStr ''failed''),
       (''job_id'', PStr ''job-1'')],
      replicate 60 (Call (status_query sample_bridge (PStr ''job-1'') sample_headers))) \<and>
   sleeps (replicate 60 (Call (status_query sample_bridge (PStr ''job-1'') sample_headers))) = [] \<and>
   poll_loop always_503 sample_bridge (PStr ''job-1'') sample_headers (Suc 59) [] =
     poll_loop always_503 sample_bridge (PStr ''job-1'') sample_headers 59
       [Call (status_query sample_bridge (PStr ''job-1'') sample_headers)]"
proof -
  have h: "\<forall>i. non200_reply (always_503 i (status_query sample_bridge (PStr ''job-1'') sample_headers))"
    by (simp add: non200_reply_def always_503_def)
  have s: "sleeps (replicate n (Call rq)) = []" for n rq
    by (induction n) simp_all
  from h conjunct2 [OF non200_consumes_attempt_without_wait
        [of always_503 "[]" sample_bridge "PStr ''job-1''" sample_headers 0]]
  have "poll_job_status always_503 sample_bridge (PStr ''job-1'') sample_headers [] =
     ([(''error'', PStr ''Job timeout after 10 minutes''),
       (''status'', PStr ''failed''),
       (''job_id'', PStr ''job-1'')],
      [] @ replicate 60 (Call (status_query sample_bridge (PStr ''job-1'') sample_headers)))"
    by blast
  moreover have "poll_loop always_503 sample_bridge (PStr ''job-1'') sample_headers (Suc 59) [] =
     poll_loop always_503 sample_bridge (PStr ''job-1'') sample_headers 59
       ([] @ [Call (status_query sample_bridge (PStr ''job-1'') sample_headers)])"
    using h conjunct1 [OF non200_consumes_attempt_without_wait
        [of always_503 "[]" sample_bridge "PStr ''job-1''" sample_headers 59]]
    by simp
  ultimately show ?thesis using h s by simp
qed




section \<open>Submission and results\<close>

lemma build_chains_short:
  "i \<le> length st \<Longrightarrow> length st < i + length seqs \<Longrightarrow>
   build_chains i seqs st chs = Inl (IndexError ''list index out of range'')"
proof (induction seqs arbitrary: i chs)
  case Nil
  then show ?case by simp
next
  case (Cons seq rest)
  then show ?case by (cases "i < length st") simp_all
qed

lemma build_chains_fits:
  "i + length seqs \<le> length st \<Longrightarrow>
   build_chains i seqs st chs =
     Inr (chs @ concat (map (\<lambda>(s, n). replicate (nat n) (PDict [(''sequence'', PStr s)]))
                          (zip seqs (drop i st))))"
proof (induction seqs arbitrary: i chs)
  case Nil
  then show ?case by simp
next
  case (Cons seq rest)
  then have i: "i < length st" by simp
  then have d: "drop i st = st ! i # drop (Suc i) st"
    by (simp add: Cons_nth_drop_Suc)
  from Cons.prems have "Suc i + length rest \<le> length st" by simp
  from Cons.IH [OF this] i d show ?case by simp
qed

lemma submitted_chains_append:
  "submitted_chains (xs @ ys) = submitted_chains xs @ submitted_chains ys"
  by (induction xs rule: submitted_chains.induct) simp_all

lemma download_keeps_submitted:
  "download_results w job_id job_data tr = (r, tr1) \<Longrightarrow>
   submitted_chains tr1 = submitted_chains tr"
  by (auto simp: download_results_def transport_def submitted_chains_append
        split: sum.splits prod.splits)

lemma attempt_keeps_submitted:
  "submitted_chains (snd (poll_attempt w b job_id hdrs tr)) = submitted_chains tr"
  by (auto simp: poll_attempt_def transport_def submitted_chains_append sleep_def print_def
        dest!: download_keeps_submitted split: sum.splits prod.splits)

lemma loop_keeps_submitted:
  "submitted_chains (snd (poll_loop w b job_id hdrs n tr)) = submitted_chains tr"
proof (induction n arbitrary: tr)
  case 0
  show ?case by simp
next
  case (Suc n)
  show ?case
  proof (cases "poll_attempt w b job_id hdrs tr")
    case (Pair r tr1)
    with attempt_keeps_submitted [of w b job_id hdrs tr]
    have k: "submitted_chains tr1 = submitted_chains tr" by simp
    show ?thesis
    proof (cases r)
      case (Inl e)
      with Pair k Suc.IH [of "sleep poll_interval (print (PollingErrorRetrying (str_exn e)) tr1)"]
      show ?thesis by (simp add: sleep_def print_def submitted_chains_append)
    next
      case (Inr od)
      with Pair k Suc.IH [of tr1] show ?thesis by (cases od) simp_all
    qed
  qed
qed




lemma loop_result_keeps_submitted:
  "poll_loop w b job_id hdrs n tr = (d, tr1) \<Longrightarrow> submitted_chains tr1 = submitted_chains tr"
  using loop_keeps_submitted [of w b job_id hdrs n tr] by simp

lemma multimer_body_submitted:
  assumes "build_chains 0 seqs st [] = Inr chs"
  shows "submitted_chains (snd (predict_multimer_body w b k seqs st tr)) =
           submitted_chains tr @ [PList chs]"
  using assms
  by (auto simp: predict_multimer_body_def transport_def poll_job_status_def Let_def
        submitted_chains_append dest!: loop_result_keeps_submitted
        split: sum.splits prod.splits)

lemma multimer_submitted:
  assumes "truthy (api_key b)"
    and "mcfg_sequences config = Some seqs"
    and "build_chains 0 seqs (case mcfg_stoichiometry config of
                                None \<Rightarrow> replicate (length seqs) 1 | Some s \<Rightarrow> s) [] = Inr chs"
  shows "submitted_chains (snd (predict_multimer w b config tr)) =
           submitted_chains tr @ [PList chs]"
proof -
  from assms(1) obtain k where k: "api_key b = Some k" "k \<noteq> []"
    by (auto simp: truthy_def split: option.splits)
  let ?st = "case mcfg_stoichiometry config of None \<Rightarrow> replicate (length seqs) 1 | Some s \<Rightarrow> s"
  from multimer_body_submitted [OF assms(3), of w b k tr]
  have "submitted_chains (snd (predict_multimer_body w b k seqs ?st tr)) =
          submitted_chains tr @ [PList chs]" .
  with k assms(2) show ?thesis
    by (cases "predict_multimer_body w b k seqs ?st tr")
       (auto simp: predict_multimer_def Let_def split: sum.splits)
qed

lemma replicated_once:
  "concat (map (\<lambda>(s, n). replicate (nat n) (f s)) (zip seqs (replicate (length seqs) 1))) =
     map f seqs"
  by (induction seqs) simp_all











section \<open>Claims about the public operations\<close>




text \<open>
  C4 at a rejected submission (code 500, body \<^verbatim>\<open>Internal Server Error\<close>): both
  operations send one request and return a failure result that holds the code;
  \<^verbatim>\<open>predict_structure\<close> also returns the body under \<^verbatim>\<open>message\<close>, the result of
  \<^verbatim>\<open>predict_multimer\<close> has no entry for it.
\<close>

theorem rejected_multimer_submission_drops_body:
  "predict_structure rejects_submission sample_bridge sample_structure [] =
     (Inr [(''error'', PStr ''API request failed: 500''),
           (''status'', PStr ''failed''),
           (''message'', PStr ''Internal Server Error'')],
      [Print (Submitting ''my_protein''),
       Call (Post ''https://api.alphafoldserver.com/v1/predict''
               (PDict [(''sequences'', PList [PDict [(''sequence'', PStr ''MKTAYIAK'')]]),
                       (''modelPreset'', PStr ''multimer''),
                       (''numPredictions'', PInt 5),
                       (''useTemplates'', PBool False)])
               sample_headers)]) \<and>
   predict_multimer rejects_submission sample_bridge sample_multimer [] =
     (Inr [(''error'', PStr ''Multimer API request failed: 500''),
           (''status'', PStr ''failed'')],
      [Call (Post ''https://api.alphafoldserver.com/v1/predict''
               (PDict [(''sequences'', PList [PDict [(''sequence'', PStr ''A'')],
                                              PDict [(''sequence'', PStr ''A'')],
                                              PDict [(''sequence'', PStr ''B'')]]),
                       (''modelPreset'', PStr ''multimer''),
                       (''numPredictions'', PInt 5)])
               sample_headers)])"
  by code_simp



text \<open>
  C7. With a key set, the one submission of \<^verbatim>\<open>predict_multimer\<close> carries as its
  \<^verbatim>\<open>sequences\<close> entry each input sequence replicated by its stoichiometry count, in
  input order (the stoichiometry list covering every sequence); without the
  \<^verbatim>\<open>stoichiometry\<close> key every count is 1 and the entry is one chain per sequence.
\<close>

theorem multimer_chains_follow_stoichiometry:
  assumes "truthy (api_key b)" and "mcfg_sequences config = Some seqs"
  shows "(mcfg_stoichiometry config = Some st \<and> length seqs \<le> length st \<longrightarrow>
            submitted_chains (snd (predict_multimer w b config tr)) =
              submitted_chains tr @ [replicated_chains seqs st]) \<and>
         (mcfg_stoichiometry config = None \<longrightarrow>
            submitted_chains (snd (predict_multimer w b config tr)) =
              submitted_chains tr @ [replicated_chains seqs (replicate (length seqs) 1)] \<and>
            replicated_chains seqs (replicate (length seqs) 1) =
              PList (map (\<lambda>s. PDict [(''sequence'', PStr s)]) seqs))"
proof (rule conjI)
  show "mcfg_stoichiometry config = Some st \<and> length seqs \<le> length st \<longrightarrow>
            submitted_chains (snd (predict_multimer w b config tr)) =
              submitted_chains tr @ [replicated_chains seqs st]"
  proof (rule impI)
    assume a: "mcfg_stoichiometry config = Some st \<and> length seqs \<le> length st"
    then have "build_chains 0 seqs st [] =
       Inr (concat (map (\<lambda>(s, n). replicate (nat n) (PDict [(''sequence'', PStr s)])) (zip seqs st)))"
      using build_chains_fits [of 0 seqs st "[]"] by simp
    with a multimer_submitted [OF assms, of _ w tr]
    show "submitted_chains (snd (predict_multimer w b config tr)) =
              submitted_chains tr @ [replicated_chains seqs st]"
      by (simp add: replicated_chains_def)
  qed
next
  show "mcfg_stoichiometry config = None \<longrightarrow>
            submitted_chains (snd (predict_multimer w b config tr)) =
              submitted_chains tr @ [replicated_chains seqs (replicate (length seqs) 1)] \<and>
            replicated_chains seqs (replicate (length seqs) 1) =
              PList (map (\<lambda>s. PDict [(''sequence'', PStr s)]) seqs)"
  proof (rule impI)
    assume a: "mcfg_stoichiometry config = None"
    have "build_chains 0 seqs (replicate (length seqs) 1) [] =
       Inr (concat (map (\<lambda>(s, n). replicate (nat n) (PDict [(''sequence'', PStr s)]))
                        (zip seqs (replicate (length seqs) 1))))"
      using build_chains_fits [of 0 seqs "replicate (length seqs) 1" "[]"] by simp
    with a multimer_submitted [OF assms, of _ w tr]
    have "submitted_chains (snd (predict_multimer w b config tr)) =
              submitted_chains tr @ [replicated_chains seqs (replicate (length seqs) 1)]"
      by (simp add: replicated_chains_def)
    moreover have "replicated_chains seqs (replicate (length seqs) 1) =
              PList (map (\<lambda>s. PDict [(''sequence'', PStr s)]) seqs)"
      by (simp add: replicated_chains_def replicated_once)
    ultimately show "submitted_chains (snd (predict_multimer w b config tr)) =
              submitted_chains tr @ [replicated_chains seqs (replicate (length seqs) 1)] \<and>
            replicated_chains seqs (replicate (length seqs) 1) =
              PList (map (\<lambda>s. PDict [(''sequence'', PStr s)]) seqs)"
      by simp
  qed
qed

text \<open>C7 on sequences A, B with stoichiometry 2, 1 and with no stoichiometry.\<close>

theorem multimer_chains_follow_stoichiometry_witness:
  "submitted_chains (snd (predict_multimer accepts_then_fails sample_bridge sample_multimer [])) =
     [PList [PDict [(''sequence'', PStr ''A'')], PDict [(''sequence'', PStr ''A'')],
             PDict [(''sequence'', PStr ''B'')]]] \<and>
   submitted_chains (snd (predict_multimer accepts_then_fails sample_bridge default_stoichiometry [])) =
     [PList [PDict [(''sequence'', PStr ''A'')], PDict [(''sequence'', PStr ''B'')]]]"
proof -
  have t: "truthy (api_key sample_bridge)"
    by (simp add: sample_bridge_def init_def truthy_def)
  have r: "replicated_chains [''A'', ''B''] [2, 1] =
     PList [PDict [(''sequence'', PStr ''A'')], PDict [(''sequence'', PStr ''A'')],
            PDict [(''sequence'', PStr ''B'')]]"
    by (simp add: replicated_chains_def numeral_2_eq_2)
  have "submitted_chains (snd (predict_multimer accepts_then_fails sample_bridge sample_multimer [])) =
          submitted_chains [] @ [replicated_chains [''A'', ''B''] [2, 1]]"
    using t conjunct1 [OF multimer_chains_follow_stoichiometry
        [of sample_bridge sample_multimer "[''A'', ''B'']" "[2, 1]" accepts_then_fails "[]"]]
    by (simp add: sample_multimer_def)
  moreover
  have "submitted_chains (snd (predict_multimer accepts_then_fails sample_bridge default_stoichiometry [])) =
          submitted_chains [] @ [replicated_chains [''A'', ''B''] (replicate (length [''A'', ''B'']) 1)] \<and>
        replicated_chains [''A'', ''B''] (replicate (length [''A'', ''B'']) 1) =
          PList (map (\<lambda>s. PDict [(''sequence'', PStr s)]) [''A'', ''B''])"
    using t conjunct2 [OF multimer_chains_follow_stoichiometry
        [of sample_bridge default_stoichiometry "[''A'', ''B'']" "[]" accepts_then_fails "[]"]]
    by (simp add: default_stoichiometry_def)
  ultimately show ?thesis using r by simp
qed

text \<open>
  C10. With a key set and a stoichiometry list shorter than the list of sequences,
  \<^verbatim>\<open>predict_multimer\<close> returns the failure result made from the caught
  \<^verbatim>\<open>IndexError\<close>; nothing is raised and nothing is sent.
\<close>

theorem short_stoichiometry_is_a_failure_result:
  assumes "truthy (api_key b)"
    and "mcfg_sequences config = Some seqs"
    and "mcfg_stoichiometry config = Some st"
    and "length st < length seqs"
  shows "predict_multimer w b config tr =
           (Inr [(''error'', PStr ''list index out of range''),
                 (''status'', PStr ''failed''),
                 (''message'', PStr ''Multimer prediction failed: list index out of range'')], tr)"
proof -
  from assms(1) obtain k where k: "api_key b = Some k" "k \<noteq> []"
    by (auto simp: truthy_def split: option.splits)
  from assms(4) have "build_chains 0 seqs st [] = Inl (IndexError ''list index out of range'')"
    by (simp add: build_chains_short)
  then have "predict_multimer_body w b k seqs st tr =
               (Inl (IndexError ''list index out of range''), tr)"
    by (simp add: predict_multimer_body_def)
  with k assms(2,3) show ?thesis
    by (simp add: predict_multimer_def)
qed

text \<open>C10 on two sequences and one stoichiometry count.\<close>

theorem short_stoichiometry_is_a_failure_result_witness:
  "predict_multimer always_pending sample_bridge short_stoichiometry [] =
           (Inr [(''error'', PStr ''list index out of range''),
                 (''status'', PStr ''failed''),
                 (''message'', PStr ''Multimer prediction failed: list index out of range'')], [])"
  using short_stoichiometry_is_a_failure_result
    [of sample_bridge short_stoichiometry "[''A'', ''B'']" "[2]" always_pending "[]"]
  by (simp add: sample_bridge_def init_def truthy_def short_stoichiometry_def)

end
